theory Spec2Isabelle
  imports Main "HOL-Library.Word"
begin

section \<open>The CONIKS audit log (protocol/auditlog/auditlog.go)\<close>

text \<open>
  The audit log mirrors the signed-tree-root (STR) histories of the key directories an
  auditor watches. This theory embeds \<^verbatim>\<open>auditlog.go\<close> function by function. Go
  mutates the log and its history records through pointers; the model passes the record
  or the log in and returns the updated one. Every history record is allocated by one
  \<^verbatim>\<open>InitHistory\<close> call and stored under one identity, so no two keys of the log share
  a record, and a map from identities to records is a faithful store.

  Pointer arguments (\<^verbatim>\<open>*protocol.DirSTR\<close>, \<^verbatim>\<open>*protocol.Response\<close>,
  \<^verbatim>\<open>*protocol.AuditingRequest\<close>) are taken to be non-nil: the model passes the value
  pointed to. The one place where the code itself produces a nil pointer, reading an
  absent key of the \<^verbatim>\<open>snapshots\<close> map, is modelled: the list that
  \<^verbatim>\<open>GetObservedSTRs\<close> builds has elements of type \<open>DirSTR option\<close>, and \<open>None\<close>
  is nil.
\<close>

subsection \<open>Data\<close>

type_synonym epoch = "64 word"
type_synonym bytes = "8 word list"

text \<open>
  Modelled from the spec: \<^verbatim>\<open>protocol.DirSTR\<close> is declared outside the visible
  sources. The record has the four fields of the spec's Snapshot; \<open>Epoch\<close> is the one
  field \<^verbatim>\<open>auditlog.go\<close> reads, a \<^verbatim>\<open>uint64\<close> (it keys
  \<^verbatim>\<open>map[uint64]*protocol.DirSTR\<close>).
\<close>

record DirSTR =
  Epoch :: epoch
  RootHash :: bytes
  PrevSnapshotHash :: bytes
  Signature :: bytes

type_synonym STRptr = "DirSTR option"

text \<open>
  The status codes. \<open>ErrMalformedMessage\<close>, \<open>ErrAuditLog\<close> and
  \<open>ReqUnknownDirectory\<close> are the names \<^verbatim>\<open>auditlog.go\<close> uses (the spec calls them
  MalformedMessage, AlreadyExists and UnknownDirectory); the others carry the spec's names.
\<close>

datatype ErrorCode =
    Ok
  | ErrMalformedMessage
  | ErrAuditLog
  | ReqUnknownDirectory
  | InvalidChain
  | EquivocationDetected

text \<open>
  A Go \<^verbatim>\<open>error\<close> value: a status code, or a string made by \<^verbatim>\<open>errors.New\<close>.
  \<open>PanicTypeAssertion\<close> stands for the run-time panic of a failed type assertion.
\<close>

datatype error =
    Code ErrorCode
  | ErrorString string
  | PanicTypeAssertion

text \<open>
  \<^verbatim>\<open>protocol.Response\<close>: a status code and a payload behind an interface. The payload
  is a range of STR pointers, a directory proof (its content plays no part here) or
  absent. The type parameter is the type of an element of the range: \<open>DirSTR\<close> in a
  message whose pointers are all non-nil, \<open>STRptr\<close> in the response that
  \<^verbatim>\<open>GetObservedSTRs\<close> builds.
\<close>

datatype 'p DirectoryResponse =
    STRHistoryRange "'p list"
  | DirectoryProof
  | NoResponse

record 'p Response =
  Error :: ErrorCode
  DirectoryResponse :: "'p DirectoryResponse"

text \<open>
  Modelled from the spec: the two constructors \<^verbatim>\<open>protocol.NewErrorResponse\<close> and
  \<^verbatim>\<open>protocol.NewSTRHistoryRange\<close> are declared outside the visible sources. The
  spec's auditor response is an ordered snapshot list with a status code; an error
  response carries the code alone.
\<close>

definition NewErrorResponse :: "ErrorCode \<Rightarrow> 'p Response" where
  "NewErrorResponse e = \<lparr>Error = e, DirectoryResponse = NoResponse\<rparr>"

definition NewSTRHistoryRange :: "'p list \<Rightarrow> 'p Response" where
  "NewSTRHistoryRange strs = \<lparr>Error = Ok, DirectoryResponse = STRHistoryRange strs\<rparr>"

record AuditingRequest =
  DirInitSTRHash :: bytes
  StartEpoch :: epoch
  EndEpoch :: epoch

subsection \<open>Collaborators outside the audit log\<close>

text \<open>
  The hash function, the signature check, the canonical encoder of an STR and the
  validation of a received message are taken as parameters: the spec treats the first
  three as opaque primitives and only names the fourth (\<^verbatim>\<open>msg.Validate()\<close>).
  \<open>verify key message signature\<close> is the signature check.
\<close>

record externals =
  hash :: "bytes \<Rightarrow> bytes"
  verify :: "bytes \<Rightarrow> bytes \<Rightarrow> bytes \<Rightarrow> bool"
  encode :: "DirSTR \<Rightarrow> bytes"
  Validate :: "DirSTR Response \<Rightarrow> error option"

subsection \<open>The auditor state (package auditor)\<close>

text \<open>
  Modelled from the spec: \<^verbatim>\<open>auditor.AudState\<close> and its methods are declared outside
  the visible sources. The spec's AuditState holds the pinned public key and the latest
  verified snapshot.
\<close>

record AudState =
  pinnedPublicKey :: bytes
  verifiedLatest :: DirSTR

text \<open>
  Modelled from the spec: \<^verbatim>\<open>auditor.New\<close> pins the key and takes the initial STR as
  the latest verified one.
\<close>

definition auditor_New :: "bytes \<Rightarrow> DirSTR \<Rightarrow> AudState" where
  "auditor_New signKey verified = \<lparr>pinnedPublicKey = signKey, verifiedLatest = verified\<rparr>"

text \<open>Modelled from the spec: \<^verbatim>\<open>VerifiedSTR\<close> reads the latest verified snapshot.\<close>

definition VerifiedSTR :: "AudState \<Rightarrow> DirSTR" where
  "VerifiedSTR a = verifiedLatest a"

text \<open>
  Modelled from the spec: \<^verbatim>\<open>Update\<close> is the side effect of a successful admission,
  \<open>state.verifiedLatest = candidate\<close>.
\<close>

definition Update :: "AudState \<Rightarrow> DirSTR \<Rightarrow> AudState" where
  "Update a newSTR = a\<lparr>verifiedLatest := newSTR\<rparr>"

text \<open>
  Modelled from the spec: \<^verbatim>\<open>auditor.ComputeDirectoryIdentity\<close> is the hash of the
  canonical encoding of the epoch-0 snapshot.
\<close>

definition ComputeDirectoryIdentity :: "externals \<Rightarrow> DirSTR \<Rightarrow> bytes" where
  "ComputeDirectoryIdentity X str = hash X (encode X str)"

text \<open>
  Modelled from the spec: the Verifier's admission rule for a state that already holds a
  snapshot (section 4.1). The candidate is accepted only if its epoch is the successor
  of the latest verified epoch, its previous-snapshot hash is the hash of the encoding
  of the latest verified snapshot, and its signature verifies under the pinned key; any
  mismatch is InvalidChain. Epochs are the spec's non-negative integers, so succession
  is stated on \<open>unat\<close> and does not wrap.
\<close>

definition admit :: "externals \<Rightarrow> AudState \<Rightarrow> DirSTR \<Rightarrow> error + AudState" where
  "admit X a candidate =
     (if unat (Epoch candidate) = unat (Epoch (verifiedLatest a)) + 1
         \<and> PrevSnapshotHash candidate = hash X (encode X (verifiedLatest a))
         \<and> verify X (pinnedPublicKey a) (encode X candidate) (Signature candidate)
      then Inr (a\<lparr>verifiedLatest := candidate\<rparr>)
      else Inl (Code InvalidChain))"

text \<open>
  Modelled from the spec: range admission validates the candidates one after the other
  from the first, each against the state the previous one leaves.
\<close>

fun admitRange :: "externals \<Rightarrow> AudState \<Rightarrow> DirSTR list \<Rightarrow> error + AudState" where
  "admitRange X a [] = Inr a"
| "admitRange X a (c # cs) =
     (case admit X a c of Inl e \<Rightarrow> Inl e | Inr a' \<Rightarrow> admitRange X a' cs)"

text \<open>
  Modelled from the spec: \<^verbatim>\<open>AuditDirectory\<close> is the check of a range against the
  auditor state. It commits nothing: it answers with the first failure, or with no error.
\<close>

definition AuditDirectory :: "externals \<Rightarrow> AudState \<Rightarrow> DirSTR list \<Rightarrow> error option" where
  "AuditDirectory X a strs =
     (case admitRange X a strs of Inl e \<Rightarrow> Some e | Inr _ \<Rightarrow> None)"

subsection \<open>Directory histories\<close>

record directoryHistory =
  AudState :: AudState
  addr :: string
  snapshots :: "epoch \<rightharpoonup> DirSTR"

text \<open>The log is keyed by the directory identity, a \<^verbatim>\<open>[crypto.HashSizeByte]byte\<close>
  array in Go; here a list of bytes of any length.\<close>

type_synonym ConiksAuditLog = "bytes \<rightharpoonup> directoryHistory"

text \<open>\<^verbatim>\<open>updateVerifiedSTR\<close>: \<^verbatim>\<open>h.Update(newVerified)\<close>, then
  \<^verbatim>\<open>h.snapshots[newVerified.Epoch] = newVerified\<close>.\<close>

definition updateVerifiedSTR :: "directoryHistory \<Rightarrow> DirSTR \<Rightarrow> directoryHistory" where
  "updateVerifiedSTR h newVerified =
     h\<lparr>AudState := Update (AudState h) newVerified,
       snapshots := (snapshots h)(Epoch newVerified \<mapsto> newVerified)\<rparr>"

definition newDirectoryHistory :: "string \<Rightarrow> bytes \<Rightarrow> DirSTR \<Rightarrow> directoryHistory" where
  "newDirectoryHistory address signKey initSTR =
     updateVerifiedSTR
       \<lparr>AudState = auditor_New signKey initSTR, addr = address, snapshots = Map.empty\<rparr>
       initSTR"

text \<open>\<^verbatim>\<open>insertRange\<close>: the loop over \<^verbatim>\<open>snaps\<close>, first element first.\<close>

fun insertRange :: "directoryHistory \<Rightarrow> DirSTR list \<Rightarrow> directoryHistory" where
  "insertRange h [] = h"
| "insertRange h (s # snaps) = insertRange (updateVerifiedSTR h s) snaps"

text \<open>
  \<^verbatim>\<open>Audit\<close> returns the error (\<open>None\<close> is Go's nil) and the history record as the
  call leaves it. A payload that is not an STR range makes the type assertion panic;
  nothing has been written at that point.
\<close>

definition Audit ::
  "externals \<Rightarrow> directoryHistory \<Rightarrow> DirSTR Response \<Rightarrow> error option \<times> directoryHistory" where
  "Audit X h msg =
     (case Validate X msg of
        Some err \<Rightarrow> (Some err, h)
      | None \<Rightarrow>
          (case DirectoryResponse msg of
             STRHistoryRange strs \<Rightarrow>
               (case AuditDirectory X (AudState h) strs of
                  Some err \<Rightarrow> (Some err, h)
                | None \<Rightarrow> (None, insertRange h strs))
           | _ \<Rightarrow> (Some PanicTypeAssertion, h)))"

subsection \<open>The log\<close>

definition New :: ConiksAuditLog where
  "New = Map.empty"

definition set_log :: "ConiksAuditLog \<Rightarrow> bytes \<Rightarrow> directoryHistory \<Rightarrow> ConiksAuditLog" where
  "set_log l dirInitHash dirHistory = l(dirInitHash \<mapsto> dirHistory)"

text \<open>\<^verbatim>\<open>get\<close> returns the record and a flag in Go; here \<open>Some h\<close> is \<open>(h, true)\<close>.\<close>

definition get :: "ConiksAuditLog \<Rightarrow> bytes \<Rightarrow> directoryHistory option" where
  "get l dirInitHash = l dirInitHash"

text \<open>
  \<^verbatim>\<open>AuditId\<close>. The record is reached through a pointer held by the log, so what
  \<^verbatim>\<open>Audit\<close> writes to it is what the log holds afterwards.
\<close>

definition AuditId ::
  "externals \<Rightarrow> ConiksAuditLog \<Rightarrow> bytes \<Rightarrow> DirSTR Response \<Rightarrow> error option \<times> ConiksAuditLog" where
  "AuditId X l dirInitHash msg =
     (case get l dirInitHash of
        None \<Rightarrow> (Some (ErrorString ''auditor: could not find id in map''), l)
      | Some h \<Rightarrow>
          (case Audit X h msg of (err, h') \<Rightarrow> (err, l(dirInitHash \<mapsto> h'))))"

definition InitHistory ::
  "externals \<Rightarrow> ConiksAuditLog \<Rightarrow> string \<Rightarrow> bytes \<Rightarrow> DirSTR list \<Rightarrow> error option \<times> ConiksAuditLog" where
  "InitHistory X l address signKey snaps =
     (case snaps of
        [] \<Rightarrow> (Some (Code ErrMalformedMessage), l)
      | s0 # rest \<Rightarrow>
          if Epoch s0 \<noteq> 0 then (Some (Code ErrMalformedMessage), l)
          else
            let dirInitHash = ComputeDirectoryIdentity X s0 in
            (case get l dirInitHash of
               Some _ \<Rightarrow> (Some (Code ErrAuditLog), l)
             | None \<Rightarrow>
                 let h = newDirectoryHistory address signKey s0;
                     h' = insertRange h rest
                 in (None, set_log l dirInitHash h')))"

text \<open>
  The loop of \<^verbatim>\<open>GetObservedSTRs\<close>:
  \<^verbatim>\<open>for ep := req.StartEpoch; ep <= req.EndEpoch; ep++ { strs = append(strs, h.snapshots[ep]) }\<close>.
  The counter is a \<^verbatim>\<open>uint64\<close> and \<^verbatim>\<open>ep++\<close> wraps, so the loop is not bounded by
  its form; a run that never leaves it is the value \<open>None\<close>.
\<close>

partial_function (option) observedLoop ::
  "(epoch \<rightharpoonup> DirSTR) \<Rightarrow> epoch \<Rightarrow> epoch \<Rightarrow> STRptr list \<Rightarrow> STRptr list option" where
  "observedLoop snaps ep endEp strs =
     (if ep \<le> endEp then observedLoop snaps (ep + 1) endEp (strs @ [snaps ep])
      else Some strs)"

text \<open>
  \<^verbatim>\<open>GetObservedSTRs\<close> returns the response together with the log as the call leaves
  it; \<open>None\<close> is a call that does not return.
\<close>

definition GetObservedSTRs ::
  "ConiksAuditLog \<Rightarrow> AuditingRequest \<Rightarrow> (STRptr Response \<times> ConiksAuditLog) option" where
  "GetObservedSTRs l req =
     (case get l (DirInitSTRHash req) of
        None \<Rightarrow> Some (NewErrorResponse ReqUnknownDirectory, l)
      | Some h \<Rightarrow>
          if EndEpoch req > Epoch (VerifiedSTR (AudState h)) \<or> StartEpoch req > EndEpoch req
          then Some (NewErrorResponse ErrMalformedMessage, l)
          else
            (case observedLoop (snapshots h) (StartEpoch req) (EndEpoch req) [] of
               None \<Rightarrow> None
             | Some strs \<Rightarrow> Some (NewSTRHistoryRange strs, l)))"

subsection \<open>The client's cross-check (package client)\<close>

text \<open>
  Modelled from the spec: \<^verbatim>\<open>CheckEquivocation\<close> of the client's consistency checker
  is declared outside the visible sources; \<^verbatim>\<open>kt_test.go\<close> only calls it. It goes
  through the range the auditor returned and compares each snapshot with the one the
  client admitted for the same epoch, if there is one. A difference is
  EquivocationDetected; an epoch the client has no snapshot for is passed over. The
  client's own admitted history is given as a map from epochs to snapshots.
\<close>

fun CheckEquivocation :: "(epoch \<rightharpoonup> DirSTR) \<Rightarrow> DirSTR list \<Rightarrow> error option" where
  "CheckEquivocation own [] = None"
| "CheckEquivocation own (s # rest) =
     (case own (Epoch s) of
        None \<Rightarrow> CheckEquivocation own rest
      | Some mine \<Rightarrow>
          if mine = s then CheckEquivocation own rest
          else Some (Code EquivocationDetected))"

subsection \<open>Sequences of operations and the shape of a history\<close>

datatype operation =
    OpInitHistory string bytes "DirSTR list"
  | OpAuditId bytes "DirSTR Response"

fun apply_op :: "externals \<Rightarrow> ConiksAuditLog \<Rightarrow> operation \<Rightarrow> ConiksAuditLog" where
  "apply_op X l (OpInitHistory address signKey snaps) =
     snd (InitHistory X l address signKey snaps)"
| "apply_op X l (OpAuditId dirInitHash msg) = snd (AuditId X l dirInitHash msg)"

definition run :: "externals \<Rightarrow> operation list \<Rightarrow> ConiksAuditLog" where
  "run X ops = foldl (apply_op X) New ops"

text \<open>\<open>consecutiveFrom n snaps\<close>: the epochs of \<open>snaps\<close> are \<open>n\<close>, \<open>n + 1\<close>, ... in order.\<close>

fun consecutiveFrom :: "nat \<Rightarrow> DirSTR list \<Rightarrow> bool" where
  "consecutiveFrom n [] = True"
| "consecutiveFrom n (s # snaps) = (unat (Epoch s) = n \<and> consecutiveFrom (Suc n) snaps)"

fun initConsecutive :: "operation \<Rightarrow> bool" where
  "initConsecutive (OpInitHistory address signKey snaps) = consecutiveFrom 0 snaps"
| "initConsecutive (OpAuditId dirInitHash msg) = True"

text \<open>The two parts of the shape of a history record: the entry stored at the epoch
  of the latest verified snapshot is that snapshot, and the stored epochs are those from 0
  to the epoch of the latest verified snapshot.\<close>

definition latestStored :: "directoryHistory \<Rightarrow> bool" where
  "latestStored h \<longleftrightarrow>
     snapshots h (Epoch (VerifiedSTR (AudState h))) = Some (VerifiedSTR (AudState h))"

definition verifiedPrefix :: "directoryHistory \<Rightarrow> bool" where
  "verifiedPrefix h \<longleftrightarrow> dom (snapshots h) = {e. e \<le> Epoch (VerifiedSTR (AudState h))}"

text \<open>\<open>epochsFrom ep n\<close>: the \<open>n\<close> epochs \<open>ep\<close>, \<open>ep + 1\<close>, ... in order.\<close>

definition epochsFrom :: "epoch \<Rightarrow> nat \<Rightarrow> epoch list" where
  "epochsFrom ep n = map (\<lambda>i. ep + of_nat i) [0..<n]"

subsection \<open>A small directory for running the model\<close>

text \<open>
  Modelled from the spec: an instance of the validation of a message received by an
  auditor. A status other than Ok, a payload that is not a range of snapshots and an
  empty range are malformed input (section 7).
\<close>

definition validateRange :: "DirSTR Response \<Rightarrow> error option" where
  "validateRange msg =
     (if Error msg \<noteq> Ok then Some (Code (Error msg))
      else (case DirectoryResponse msg of
              STRHistoryRange strs \<Rightarrow>
                if strs = [] then Some (Code ErrMalformedMessage) else None
            | _ \<Rightarrow> Some (Code ErrMalformedMessage)))"

text \<open>
  Stand-ins for the primitives: the hash is the identity, a signature is the key
  followed by the message, and an STR is encoded as the low byte of its epoch followed
  by its root hash and its previous-snapshot hash.
\<close>

definition demoX :: externals where
  "demoX = \<lparr>hash = (\<lambda>b. b),
            verify = (\<lambda>key m sg. sg = key @ m),
            encode = (\<lambda>s. ucast (Epoch s) # RootHash s @ PrevSnapshotHash s),
            Validate = validateRange\<rparr>"

definition demoKey :: bytes where
  "demoKey = [7]"

text \<open>\<open>str0\<close>, \<open>str1\<close>, \<open>str2\<close> form a chain under \<open>demoX\<close> and \<open>demoKey\<close>;
  \<open>str1_fork\<close> is another valid successor of \<open>str0\<close>.\<close>

definition str0 :: DirSTR where
  "str0 = \<lparr>Epoch = 0, RootHash = [1], PrevSnapshotHash = [], Signature = [7, 0, 1]\<rparr>"

definition str1 :: DirSTR where
  "str1 = \<lparr>Epoch = 1, RootHash = [2], PrevSnapshotHash = [0, 1],
           Signature = [7, 1, 2, 0, 1]\<rparr>"

definition str2 :: DirSTR where
  "str2 = \<lparr>Epoch = 2, RootHash = [3], PrevSnapshotHash = [1, 2, 0, 1],
           Signature = [7, 2, 3, 1, 2, 0, 1]\<rparr>"

definition str1_fork :: DirSTR where
  "str1_fork = \<lparr>Epoch = 1, RootHash = [9], PrevSnapshotHash = [0, 1],
                Signature = [7, 1, 9, 0, 1]\<rparr>"

definition demoId :: bytes where
  "demoId = ComputeDirectoryIdentity demoX str0"

text \<open>The log after \<^verbatim>\<open>InitHistory\<close> with the single snapshot \<open>str0\<close>, as
  \<^verbatim>\<open>newAuditor\<close> of \<^verbatim>\<open>kt_test.go\<close> makes it.\<close>

definition demoLog :: ConiksAuditLog where
  "demoLog = snd (InitHistory demoX New ''addr-of-test-dir'' demoKey [str0])"

text \<open>The log after \<^verbatim>\<open>InitHistory\<close> with \<open>str0\<close> followed by \<open>str2\<close>: epoch 1 is
  missing from the list.\<close>

definition gapLog :: ConiksAuditLog where
  "gapLog = snd (InitHistory demoX New ''addr-of-test-dir'' demoKey [str0, str2])"

text \<open>An auditor that starts from \<open>str0\<close> and \<open>str1\<close> and is then sent \<open>str2\<close>.\<close>

definition demoOps :: "operation list" where
  "demoOps = [OpInitHistory ''addr-of-test-dir'' demoKey [str0, str1],
              OpAuditId demoId (NewSTRHistoryRange [str2])]"

section \<open>Auxiliary facts\<close>

subsection \<open>The small directory\<close>

lemma demoId_val: "demoId = [0, 1]"
  by (simp add: demoId_def ComputeDirectoryIdentity_def demoX_def str0_def)

lemma demoLog_val:
  "demoLog = [demoId \<mapsto> newDirectoryHistory ''addr-of-test-dir'' demoKey str0]"
  by (simp add: demoLog_def InitHistory_def New_def get_def set_log_def demoId_def str0_def)

lemma gapLog_val:
  "gapLog = [demoId \<mapsto>
      insertRange (newDirectoryHistory ''addr-of-test-dir'' demoKey str0) [str2]]"
  by (simp add: gapLog_def InitHistory_def New_def get_def set_log_def demoId_def str0_def)

subsection \<open>Audit\<close>

lemma Audit_error_unchanged: "Audit X h msg = (Some e, h') \<Longrightarrow> h' = h"
  by (auto simp: Audit_def split: option.splits DirectoryResponse.splits)

lemma Audit_demo_bad_range:
  "Audit demoX (newDirectoryHistory ''addr-of-test-dir'' demoKey str0)
        (NewSTRHistoryRange [str1, str1_fork])
     = (Some (Code InvalidChain), newDirectoryHistory ''addr-of-test-dir'' demoKey str0)"
  by (simp add: Audit_def AuditDirectory_def admit_def NewSTRHistoryRange_def
        validateRange_def newDirectoryHistory_def updateVerifiedSTR_def Update_def
        auditor_New_def demoX_def demoKey_def str0_def str1_def str1_fork_def)

lemma admitRange_append:
  "admitRange X a (xs @ ys) =
     (case admitRange X a xs of Inl e \<Rightarrow> Inl e | Inr a' \<Rightarrow> admitRange X a' ys)"
  by (induction xs arbitrary: a) (auto split: sum.splits)

text \<open>A candidate rejected at position \<open>j\<close>, after the \<open>j\<close> before it were accepted,
  makes the admission of the whole range fail.\<close>

lemma admitRange_fails_at:
  assumes "j < length strs"
    and "admitRange X a (take j strs) = Inr a'"
    and "admit X a' (strs ! j) = Inl e"
  shows "admitRange X a strs = Inl e"
proof -
  have "strs = take j strs @ strs ! j # drop (Suc j) strs"
    using assms(1) by (rule id_take_nth_drop)
  then have "admitRange X a strs = admitRange X a (take j strs @ strs ! j # drop (Suc j) strs)"
    by simp
  also have "\<dots> = Inl e"
    using assms(2,3) by (simp add: admitRange_append)
  finally show ?thesis .
qed

subsection \<open>What insertRange leaves in a record\<close>

lemma find_app:
  "find P (xs @ ys) = (case find P xs of None \<Rightarrow> find P ys | Some x \<Rightarrow> Some x)"
  by (induction xs) auto

lemma snapshots_insertRange:
  "snapshots (insertRange h snaps) e =
     (case find (\<lambda>s. Epoch s = e) (rev snaps) of
        None \<Rightarrow> snapshots h e
      | Some s \<Rightarrow> Some s)"
  by (induction snaps arbitrary: h)
     (auto simp: updateVerifiedSTR_def find_app split: option.splits)

lemma addr_insertRange: "addr (insertRange h snaps) = addr h"
  by (induction snaps arbitrary: h) (auto simp: updateVerifiedSTR_def)

lemma key_insertRange:
  "pinnedPublicKey (AudState (insertRange h snaps)) = pinnedPublicKey (AudState h)"
  by (induction snaps arbitrary: h) (auto simp: updateVerifiedSTR_def Update_def)

lemma latest_insertRange:
  "VerifiedSTR (AudState (insertRange h snaps))
     = (if snaps = [] then VerifiedSTR (AudState h) else last snaps)"
  by (induction snaps arbitrary: h) (auto simp: updateVerifiedSTR_def Update_def VerifiedSTR_def)

subsection \<open>The loop of GetObservedSTRs\<close>

lemma epochsFrom_Suc: "epochsFrom ep (Suc n) = ep # epochsFrom (ep + 1) n"
proof -
  have "[0..<Suc n] = 0 # map Suc [0..<n]"
    by (simp add: upt_conv_Cons map_Suc_upt del: upt_Suc)
  then show ?thesis
    by (simp add: epochsFrom_def comp_def add.assoc del: upt_Suc)
qed

lemma epochsFrom_length: "length (epochsFrom ep n) = n"
  by (simp add: epochsFrom_def)

lemma epochsFrom_nth: "i < n \<Longrightarrow> epochsFrom ep n ! i = ep + of_nat i"
  by (simp add: epochsFrom_def)

lemma unat_succ_le:
  fixes ep endEp :: epoch
  assumes "ep \<le> endEp" and "endEp \<noteq> - 1"
  shows "unat (ep + 1) = unat ep + 1"
proof -
  have "ep \<noteq> - 1" using assms by (metis word_order.extremum_unique)
  then have "1 + ep \<noteq> 0" by (metis add.commute add_eq_0_iff)
  then show ?thesis using unatSuc[of ep] by (simp add: add.commute)
qed

lemma unat_offset:
  fixes a b :: epoch
  assumes "a \<le> b" and "i \<le> unat b - unat a"
  shows "unat (a + of_nat i) = unat a + i"
proof -
  have "unat a \<le> unat b" using assms(1) by (simp add: word_le_nat_alt)
  moreover have "unat b < 2 ^ 64" using unsigned_less [of b] by simp
  ultimately have lt: "unat a + i < 2 ^ 64" using assms(2) by linarith
  then have "i < 2 ^ 64" by linarith
  then have "unat (of_nat i :: epoch) = i" by (simp add: unat_of_nat)
  with lt show ?thesis by (simp add: unat_word_ariths)
qed

text \<open>Below the largest epoch the loop returns the entries of the map for the epochs
  from \<open>ep\<close> to \<open>endEp\<close>, appended to what it was given.\<close>

lemma observedLoop_returns:
  fixes endEp :: epoch
  assumes "endEp \<noteq> - 1"
  shows "observedLoop snaps ep endEp strs
           = Some (strs @ map snaps (epochsFrom ep (unat endEp + 1 - unat ep)))"
proof (induction "unat endEp + 1 - unat ep" arbitrary: ep strs)
  case 0
  then have "\<not> ep \<le> endEp" by (simp add: word_le_nat_alt)
  with 0 show ?case
    by (subst observedLoop.simps) (simp add: epochsFrom_def)
next
  case (Suc n)
  then have le: "ep \<le> endEp" by (simp add: word_le_nat_alt)
  have step: "unat (ep + 1) = unat ep + 1" using le assms by (rule unat_succ_le)
  with Suc have n: "n = unat endEp + 1 - unat (ep + 1)" by simp
  have "observedLoop snaps ep endEp strs
          = observedLoop snaps (ep + 1) endEp (strs @ [snaps ep])"
    using le by (subst observedLoop.simps) simp
  also have "\<dots> = Some ((strs @ [snaps ep]) @ map snaps (epochsFrom (ep + 1) n))"
    using Suc.hyps(1)[OF n] n by simp
  finally show ?case
    using Suc.hyps(2)[symmetric] by (simp add: epochsFrom_Suc)
qed

text \<open>At the largest epoch, \<open>2 ^ 64 - 1\<close>, the test \<open>ep \<le> endEp\<close> never fails and
  the loop does not return.\<close>

lemma observedLoop_Some_bounded:
  "observedLoop snaps ep endEp strs = Some y \<Longrightarrow> endEp \<noteq> - 1"
  by (rule observedLoop.raw_induct
        [where P = "\<lambda>snaps ep endEp strs y. endEp \<noteq> - 1"])
     (auto split: if_splits)

lemma observedLoop_diverges:
  "observedLoop snaps ep (- 1) strs = None"
  using observedLoop_Some_bounded[of snaps ep "- 1" strs]
  by (cases "observedLoop snaps ep (- 1) strs") auto

lemma GetObservedSTRs_max_epoch:
  assumes "l (DirInitSTRHash req) = Some h"
    and "Epoch (VerifiedSTR (AudState h)) = - 1"
    and "EndEpoch req = - 1"
  shows "GetObservedSTRs l req = None"
  using assms by (simp add: GetObservedSTRs_def get_def observedLoop_diverges)

lemma gap_request:
  "GetObservedSTRs gapLog \<lparr>DirInitSTRHash = demoId, StartEpoch = 0, EndEpoch = 2\<rparr>
     = Some (NewSTRHistoryRange [Some str0, None, Some str2], gapLog)"
  by (simp add: GetObservedSTRs_def get_def gapLog_val observedLoop.simps
        newDirectoryHistory_def updateVerifiedSTR_def Update_def VerifiedSTR_def
        auditor_New_def str0_def str2_def)

text \<open>A record with the largest epoch as its latest verified one can be made by
  \<^verbatim>\<open>InitHistory\<close>; the request for that epoch does not return.\<close>

lemma GetObservedSTRs_max_epoch_reachable:
  "GetObservedSTRs
     (snd (InitHistory demoX New ''addr-of-test-dir'' demoKey [str0, str2\<lparr>Epoch := - 1\<rparr>]))
     \<lparr>DirInitSTRHash = demoId, StartEpoch = - 1, EndEpoch = - 1\<rparr> = None"
proof -
  let ?h = "insertRange (newDirectoryHistory ''addr-of-test-dir'' demoKey str0)
              [str2\<lparr>Epoch := - 1\<rparr>]"
  let ?l = "snd (InitHistory demoX New ''addr-of-test-dir'' demoKey
              [str0, str2\<lparr>Epoch := - 1\<rparr>])"
  let ?req = "\<lparr>DirInitSTRHash = demoId, StartEpoch = - 1, EndEpoch = - 1\<rparr>"
  have k: "?l (DirInitSTRHash ?req) = Some ?h"
    by (simp add: InitHistory_def New_def get_def set_log_def demoId_def str0_def)
  have v: "Epoch (VerifiedSTR (AudState ?h)) = - 1"
    by (simp add: updateVerifiedSTR_def Update_def VerifiedSTR_def)
  have e: "EndEpoch ?req = - 1" by simp
  show ?thesis
    by (rule GetObservedSTRs_max_epoch [where l = ?l and req = ?req and h = ?h, OF k v e])
qed

section \<open>InitHistory\<close>

text \<open>
  Claim C7. For every address, key and list of snapshots, \<^verbatim>\<open>InitHistory\<close> fails with
  \<open>ErrMalformedMessage\<close> exactly when the list is empty or its first snapshot is not
  for epoch 0, and in that case the audit log is left as it was.
\<close>

theorem InitHistory_malformed:
  "(fst (InitHistory X l address signKey snaps) = Some (Code ErrMalformedMessage))
     = (snaps = [] \<or> Epoch (hd snaps) \<noteq> 0)
   \<and> (snaps = [] \<or> Epoch (hd snaps) \<noteq> 0
        \<longrightarrow> snd (InitHistory X l address signKey snaps) = l)"
  by (cases snaps) (auto simp: InitHistory_def Let_def split: option.splits)

theorem InitHistory_malformed_witness:
  "fst (InitHistory demoX demoLog ''other-dir'' demoKey [str1])
     = Some (Code ErrMalformedMessage)
   \<and> snd (InitHistory demoX demoLog ''other-dir'' demoKey [str1]) = demoLog
   \<and> fst (InitHistory demoX demoLog ''other-dir'' demoKey [])
       = Some (Code ErrMalformedMessage)
   \<and> snd (InitHistory demoX demoLog ''other-dir'' demoKey []) = demoLog
   \<and> fst (InitHistory demoX New ''other-dir'' demoKey [str0])
       \<noteq> Some (Code ErrMalformedMessage)"
  using InitHistory_malformed [of demoX demoLog "''other-dir''" demoKey "[str1]"]
    InitHistory_malformed [of demoX demoLog "''other-dir''" demoKey "[]"]
    InitHistory_malformed [of demoX New "''other-dir''" demoKey "[str0]"]
  by (simp add: str1_def str0_def)

text \<open>
  Claim C8. For every well-formed call of \<^verbatim>\<open>InitHistory\<close> (a non-empty list whose
  first snapshot is for epoch 0) where the identity computed from the first snapshot is
  already a key of the log, the call fails with \<open>ErrAuditLog\<close> (the spec's
  AlreadyExists) and returns the log as it was, so the record stored for that identity
  is unchanged.
\<close>

theorem InitHistory_known:
  assumes "snaps \<noteq> []" and "Epoch (hd snaps) = 0"
    and "l (ComputeDirectoryIdentity X (hd snaps)) = Some h"
  shows "InitHistory X l address signKey snaps = (Some (Code ErrAuditLog), l)"
  using assms by (cases snaps) (simp_all add: InitHistory_def get_def)

theorem InitHistory_known_witness:
  "InitHistory demoX demoLog ''other-dir'' demoKey [str0, str1]
     = (Some (Code ErrAuditLog), demoLog)"
proof -
  have "demoLog (ComputeDirectoryIdentity demoX (hd [str0, str1]))
          = Some (newDirectoryHistory ''addr-of-test-dir'' demoKey str0)"
    by (simp add: demoLog_val demoId_def)
  moreover have "Epoch (hd [str0, str1]) = 0" by (simp add: str0_def)
  ultimately show ?thesis
    using InitHistory_known [where snaps = "[str0, str1]" and X = demoX and l = demoLog]
    by simp
qed

text \<open>
  Claim C1 (as amended). For every call of \<^verbatim>\<open>InitHistory\<close> with a non-empty list
  whose first snapshot is for epoch 0 and whose identity is not yet in the log, the call
  succeeds and stores under that identity a new record with the given address and the
  given key pinned; the record is the one \<^verbatim>\<open>insertRange\<close> makes from the rest of the
  list, with no check of epoch succession, hash linkage or signature. Its latest verified
  snapshot is the last one of the list, and the entry stored for an epoch is the last
  snapshot of the list that carries that epoch, whatever the list is.
\<close>

theorem InitHistory_stores_unverified:
  assumes "snaps \<noteq> []" and "Epoch (hd snaps) = 0"
    and "l (ComputeDirectoryIdentity X (hd snaps)) = None"
  shows "\<exists>h. InitHistory X l address signKey snaps
               = (None, l(ComputeDirectoryIdentity X (hd snaps) \<mapsto> h))
           \<and> h = insertRange (newDirectoryHistory address signKey (hd snaps)) (tl snaps)
           \<and> addr h = address
           \<and> pinnedPublicKey (AudState h) = signKey
           \<and> VerifiedSTR (AudState h) = last snaps
           \<and> (\<forall>e. snapshots h e = find (\<lambda>s. Epoch s = e) (rev snaps))"
proof (cases snaps)
  case Nil
  with assms show ?thesis by simp
next
  case (Cons s0 rest)
  let ?h0 = "newDirectoryHistory address signKey s0"
  have run: "InitHistory X l address signKey snaps
               = (None, l(ComputeDirectoryIdentity X s0 \<mapsto> insertRange ?h0 rest))"
    using assms Cons by (simp add: InitHistory_def get_def set_log_def)
  have a: "addr (insertRange ?h0 rest) = address"
    by (simp add: addr_insertRange newDirectoryHistory_def updateVerifiedSTR_def)
  have k: "pinnedPublicKey (AudState (insertRange ?h0 rest)) = signKey"
    by (simp add: key_insertRange newDirectoryHistory_def updateVerifiedSTR_def
          Update_def auditor_New_def)
  have v: "VerifiedSTR (AudState (insertRange ?h0 rest)) = last snaps"
    using Cons by (subst latest_insertRange)
      (simp add: newDirectoryHistory_def updateVerifiedSTR_def Update_def auditor_New_def
         VerifiedSTR_def)
  have m: "snapshots (insertRange ?h0 rest) e = find (\<lambda>s. Epoch s = e) (rev snaps)" for e
    using Cons
    by (simp add: snapshots_insertRange newDirectoryHistory_def updateVerifiedSTR_def
          find_app split: option.splits)
  show ?thesis using run a k v m Cons by simp
qed

theorem InitHistory_stores_unverified_witness:
  "\<exists>h. InitHistory demoX New ''addr-of-test-dir'' demoKey [str0, str2]
               = (None, New(demoId \<mapsto> h))
           \<and> h = insertRange (newDirectoryHistory ''addr-of-test-dir'' demoKey str0) [str2]
           \<and> addr h = ''addr-of-test-dir''
           \<and> pinnedPublicKey (AudState h) = demoKey
           \<and> VerifiedSTR (AudState h) = str2
           \<and> (\<forall>e. snapshots h e = find (\<lambda>s. Epoch s = e) [str2, str0])"
  using InitHistory_stores_unverified
    [of "[str0, str2]" New demoX "''addr-of-test-dir''" demoKey]
  by (simp add: str0_def New_def demoId_def)

text \<open>
  Claim C1 as stated fails: \<^verbatim>\<open>InitHistory\<close> with the list \<open>[str0, str2]\<close> succeeds
  and stores \<open>str2\<close> at epoch 2, although the range-admission rule rejects \<open>str2\<close>
  as a successor of \<open>str0\<close>.
\<close>

theorem InitHistory_admits_unchecked_counterexample:
  "fst (InitHistory demoX New ''addr-of-test-dir'' demoKey [str0, str2]) = None
   \<and> snapshots (the (gapLog demoId)) 2 = Some str2
   \<and> AuditDirectory demoX (auditor_New demoKey str0) [str2] = Some (Code InvalidChain)"
  by (simp add: gapLog_val InitHistory_def New_def get_def set_log_def
        ComputeDirectoryIdentity_def AuditDirectory_def admit_def auditor_New_def
        newDirectoryHistory_def updateVerifiedSTR_def demoX_def str0_def str2_def)

section \<open>Audit and AuditId\<close>

text \<open>
  Claim C2. Range admission is all-or-nothing: whenever \<^verbatim>\<open>Audit\<close> returns an error,
  the history record is left exactly as it was, and so is the log when the call came
  through \<^verbatim>\<open>AuditId\<close>; in particular the snapshots map, and with it the highest epoch
  stored, is the same after the call as before. \<^verbatim>\<open>Audit\<close> returns an error when the
  validation of the message fails, and when the candidate at some position \<open>j\<close> of the
  range is rejected after the \<open>j\<close> candidates before it were accepted.
\<close>

theorem Audit_all_or_nothing:
  "(Audit X h msg = (Some e, h') \<longrightarrow> h' = h)
   \<and> (AuditId X l dirInitHash msg = (Some e, l') \<longrightarrow> l' = l)
   \<and> (Validate X msg = Some e \<longrightarrow> Audit X h msg = (Some e, h))
   \<and> (Validate X msg = None \<and> DirectoryResponse msg = STRHistoryRange strs
        \<and> j < length strs \<and> admitRange X (AudState h) (take j strs) = Inr a
        \<and> admit X a (strs ! j) = Inl e
      \<longrightarrow> Audit X h msg = (Some e, h))"
proof (intro conjI impI)
  assume "Audit X h msg = (Some e, h')"
  then show "h' = h" by (rule Audit_error_unchanged)
next
  assume "AuditId X l dirInitHash msg = (Some e, l')"
  then show "l' = l"
    by (auto simp: AuditId_def get_def split: option.splits prod.splits
             dest!: Audit_error_unchanged)
next
  assume "Validate X msg = Some e"
  then show "Audit X h msg = (Some e, h)" by (simp add: Audit_def)
next
  assume "Validate X msg = None \<and> DirectoryResponse msg = STRHistoryRange strs
        \<and> j < length strs \<and> admitRange X (AudState h) (take j strs) = Inr a
        \<and> admit X a (strs ! j) = Inl e"
  then have v: "Validate X msg = None" and p: "DirectoryResponse msg = STRHistoryRange strs"
    and "admitRange X (AudState h) strs = Inl e"
    by (auto intro: admitRange_fails_at)
  then show "Audit X h msg = (Some e, h)"
    by (simp add: Audit_def AuditDirectory_def)
qed

theorem Audit_all_or_nothing_witness:
  "Audit demoX (newDirectoryHistory ''addr-of-test-dir'' demoKey str0)
       (NewSTRHistoryRange [str1, str1_fork])
     = (Some (Code InvalidChain), newDirectoryHistory ''addr-of-test-dir'' demoKey str0)
   \<and> snd (AuditId demoX demoLog demoId (NewSTRHistoryRange [str1, str1_fork])) = demoLog"
proof -
  let ?h = "newDirectoryHistory ''addr-of-test-dir'' demoKey str0"
  let ?msg = "NewSTRHistoryRange [str1, str1_fork]"
  let ?a = "auditor_New demoKey str1"
  have v: "Validate demoX ?msg = None"
    by (simp add: demoX_def validateRange_def NewSTRHistoryRange_def)
  have p: "DirectoryResponse ?msg = STRHistoryRange [str1, str1_fork]"
    by (simp add: NewSTRHistoryRange_def)
  have t: "admitRange demoX (AudState ?h) (take 1 [str1, str1_fork]) = Inr ?a"
    by (simp add: admit_def newDirectoryHistory_def updateVerifiedSTR_def Update_def
          auditor_New_def demoX_def demoKey_def str0_def str1_def)
  have r: "admit demoX ?a ([str1, str1_fork] ! 1) = Inl (Code InvalidChain)"
    by (simp add: admit_def auditor_New_def str1_def str1_fork_def)
  have b: "fst (AuditId demoX demoLog demoId ?msg) = Some (Code InvalidChain)"
    by (simp add: AuditId_def get_def demoLog_val Audit_demo_bad_range)
  note th = Audit_all_or_nothing [where X = demoX and h = ?h and msg = ?msg
      and e = "Code InvalidChain" and strs = "[str1, str1_fork]" and j = 1 and a = ?a
      and l = demoLog and dirInitHash = demoId
      and l' = "snd (AuditId demoX demoLog demoId ?msg)"]
  from th v p t r have "Audit demoX ?h ?msg = (Some (Code InvalidChain), ?h)" by simp
  moreover from th b have "snd (AuditId demoX demoLog demoId ?msg) = demoLog"
    by (metis prod.collapse)
  ultimately show ?thesis by simp
qed

text \<open>
  Claim C9 (as amended). For every log and every identity that is not a key of it,
  \<^verbatim>\<open>AuditId\<close> fails with the error
  \<^verbatim>\<open>errors.New("auditor: could not find id in map")\<close>, a string error of its own:
  it is not the status code \<open>ReqUnknownDirectory\<close> and it is not the error of a
  malformed message. The log is returned as it was: no record is created or changed.
\<close>

theorem AuditId_unknown:
  assumes "l dirInitHash = None"
  shows "AuditId X l dirInitHash msg
           = (Some (ErrorString ''auditor: could not find id in map''), l)
         \<and> fst (AuditId X l dirInitHash msg) \<noteq> Some (Code ReqUnknownDirectory)
         \<and> fst (AuditId X l dirInitHash msg) \<noteq> Some (Code ErrMalformedMessage)"
  using assms by (simp add: AuditId_def get_def)

theorem AuditId_unknown_witness:
  "AuditId demoX demoLog [4, 2] (NewSTRHistoryRange [str1])
     = (Some (ErrorString ''auditor: could not find id in map''), demoLog)
   \<and> fst (AuditId demoX demoLog [4, 2] (NewSTRHistoryRange [str1]))
       \<noteq> Some (Code ReqUnknownDirectory)
   \<and> fst (AuditId demoX demoLog [4, 2] (NewSTRHistoryRange [str1]))
       \<noteq> Some (Code ErrMalformedMessage)"
proof -
  have "demoLog [4, 2] = None" by (simp add: demoLog_val demoId_val)
  then show ?thesis by (rule AuditId_unknown)
qed

text \<open>
  Claim C9 as stated fails: the identity \<open>[4, 2]\<close> is not a key of \<open>demoLog\<close>, and
  the error \<^verbatim>\<open>AuditId\<close> returns for it is the string error, not the status code
  \<open>ReqUnknownDirectory\<close> with which \<^verbatim>\<open>GetObservedSTRs\<close> answers a request for the
  same identity.
\<close>

theorem AuditId_unknown_code_counterexample:
  "demoLog [4, 2] = None
   \<and> fst (AuditId demoX demoLog [4, 2] (NewSTRHistoryRange [str1]))
       = Some (ErrorString ''auditor: could not find id in map'')
   \<and> fst (AuditId demoX demoLog [4, 2] (NewSTRHistoryRange [str1]))
       \<noteq> Some (Code ReqUnknownDirectory)
   \<and> map_option fst (GetObservedSTRs demoLog
         \<lparr>DirInitSTRHash = [4, 2], StartEpoch = 0, EndEpoch = 0\<rparr>)
       = Some (NewErrorResponse ReqUnknownDirectory)"
  by (simp add: AuditId_def GetObservedSTRs_def get_def demoLog_val demoId_val)

section \<open>GetObservedSTRs\<close>

text \<open>
  Claim C5. For every log and request, \<^verbatim>\<open>GetObservedSTRs\<close> answers with the error
  response \<open>ReqUnknownDirectory\<close> when the identity of the request is not a key of the
  log; when it is, the answer is the error response \<open>ErrMalformedMessage\<close> exactly when
  the start epoch is greater than the end epoch or the end epoch is greater than the
  epoch of the latest verified snapshot of the record.
\<close>

theorem GetObservedSTRs_errors:
  "(l (DirInitSTRHash req) = None \<longrightarrow>
      map_option fst (GetObservedSTRs l req) = Some (NewErrorResponse ReqUnknownDirectory))
   \<and> (l (DirInitSTRHash req) = Some h \<longrightarrow>
        (map_option fst (GetObservedSTRs l req) = Some (NewErrorResponse ErrMalformedMessage))
          = (StartEpoch req > EndEpoch req
              \<or> EndEpoch req > Epoch (VerifiedSTR (AudState h))))"
  by (auto simp: GetObservedSTRs_def get_def NewErrorResponse_def NewSTRHistoryRange_def
           split: option.splits)

theorem GetObservedSTRs_errors_witness:
  "map_option fst (GetObservedSTRs demoLog
       \<lparr>DirInitSTRHash = [4, 2], StartEpoch = 0, EndEpoch = 0\<rparr>)
     = Some (NewErrorResponse ReqUnknownDirectory)
   \<and> map_option fst (GetObservedSTRs demoLog
       \<lparr>DirInitSTRHash = demoId, StartEpoch = 0, EndEpoch = 1\<rparr>)
     = Some (NewErrorResponse ErrMalformedMessage)
   \<and> map_option fst (GetObservedSTRs gapLog
       \<lparr>DirInitSTRHash = demoId, StartEpoch = 2, EndEpoch = 1\<rparr>)
     = Some (NewErrorResponse ErrMalformedMessage)
   \<and> map_option fst (GetObservedSTRs gapLog
       \<lparr>DirInitSTRHash = demoId, StartEpoch = 1, EndEpoch = 2\<rparr>)
     \<noteq> Some (NewErrorResponse ErrMalformedMessage)"
proof -
  let ?h = "newDirectoryHistory ''addr-of-test-dir'' demoKey str0"
  let ?g = "insertRange ?h [str2]"
  show ?thesis
    using GetObservedSTRs_errors
        [of demoLog "\<lparr>DirInitSTRHash = [4, 2], StartEpoch = 0, EndEpoch = 0\<rparr>" ?h]
      GetObservedSTRs_errors
        [of demoLog "\<lparr>DirInitSTRHash = demoId, StartEpoch = 0, EndEpoch = 1\<rparr>" ?h]
      GetObservedSTRs_errors
        [of gapLog "\<lparr>DirInitSTRHash = demoId, StartEpoch = 2, EndEpoch = 1\<rparr>" ?g]
      GetObservedSTRs_errors
        [of gapLog "\<lparr>DirInitSTRHash = demoId, StartEpoch = 1, EndEpoch = 2\<rparr>" ?g]
    by (simp add: demoLog_val gapLog_val demoId_val newDirectoryHistory_def
          updateVerifiedSTR_def Update_def VerifiedSTR_def str0_def str2_def)
qed

text \<open>
  Claim C6 (as amended). For every request with a known identity, a start epoch not
  above its end epoch, an end epoch not above the epoch of the latest verified snapshot
  and below \<open>2 ^ 64 - 1\<close>, \<^verbatim>\<open>GetObservedSTRs\<close> returns, in the order of the epochs,
  the entries of the snapshots map for the epochs from start to end: the stored snapshot
  where the epoch has one and nil where it has none. The list has end - start + 1
  elements, one when start and end are equal, and none of them is nil when the stored
  epochs are those from 0 to the latest verified one.
\<close>

theorem GetObservedSTRs_range:
  assumes known: "l (DirInitSTRHash req) = Some h"
    and order: "StartEpoch req \<le> EndEpoch req"
    and bound: "EndEpoch req \<le> Epoch (VerifiedSTR (AudState h))"
    and below_max: "EndEpoch req \<noteq> - 1"
  shows "\<exists>strs. GetObservedSTRs l req = Some (NewSTRHistoryRange strs, l)
           \<and> length strs = unat (EndEpoch req) - unat (StartEpoch req) + 1
           \<and> (\<forall>i < length strs. strs ! i = snapshots h (StartEpoch req + of_nat i))
           \<and> (StartEpoch req = EndEpoch req \<longrightarrow> strs = [snapshots h (StartEpoch req)])
           \<and> (dom (snapshots h) = {e. e \<le> Epoch (VerifiedSTR (AudState h))}
                \<longrightarrow> (\<forall>p \<in> set strs. p \<noteq> None))"
proof -
  let ?n = "unat (EndEpoch req) - unat (StartEpoch req) + 1"
  let ?strs = "map (snapshots h) (epochsFrom (StartEpoch req) ?n)"
  have le: "unat (StartEpoch req) \<le> unat (EndEpoch req)"
    using order by (simp add: word_le_nat_alt)
  then have n: "unat (EndEpoch req) + 1 - unat (StartEpoch req) = ?n" by simp
  have loop: "observedLoop (snapshots h) (StartEpoch req) (EndEpoch req) [] = Some ?strs"
    using observedLoop_returns [OF below_max, of "snapshots h" "StartEpoch req" "[]"] n
    by simp
  have ret: "GetObservedSTRs l req = Some (NewSTRHistoryRange ?strs, l)"
    using known order bound loop by (simp add: GetObservedSTRs_def get_def not_less)
  have len: "length ?strs = ?n" by (simp add: epochsFrom_length)
  have nth: "?strs ! i = snapshots h (StartEpoch req + of_nat i)" if "i < length ?strs" for i
    using that by (simp add: epochsFrom_length epochsFrom_nth)
  have one: "?strs = [snapshots h (StartEpoch req)]" if "StartEpoch req = EndEpoch req"
    using that by (simp add: epochsFrom_def)
  have full: "p \<noteq> None"
    if dom: "dom (snapshots h) = {e. e \<le> Epoch (VerifiedSTR (AudState h))}"
      and p: "p \<in> set ?strs" for p
  proof -
    from p obtain i where "i < length ?strs" and "?strs ! i = p"
      by (auto simp: in_set_conv_nth)
    with len nth have i: "i < ?n" and p_eq: "p = snapshots h (StartEpoch req + of_nat i)"
      by auto
    from i have "i \<le> unat (EndEpoch req) - unat (StartEpoch req)" by simp
    then have "unat (StartEpoch req + of_nat i) = unat (StartEpoch req) + i"
      using order by (intro unat_offset)
    with i le have "StartEpoch req + of_nat i \<le> EndEpoch req"
      by (simp add: word_le_nat_alt)
    with bound have "StartEpoch req + of_nat i \<in> dom (snapshots h)"
      unfolding dom by simp
    with p_eq show ?thesis by auto
  qed
  show ?thesis
  proof (intro exI [of _ ?strs] conjI)
    show "GetObservedSTRs l req = Some (NewSTRHistoryRange ?strs, l)" by (rule ret)
    show "length ?strs = ?n" by (rule len)
    show "\<forall>i < length ?strs. ?strs ! i = snapshots h (StartEpoch req + of_nat i)"
      using nth by blast
    show "StartEpoch req = EndEpoch req \<longrightarrow> ?strs = [snapshots h (StartEpoch req)]"
      using one by blast
    show "dom (snapshots h) = {e. e \<le> Epoch (VerifiedSTR (AudState h))}
            \<longrightarrow> (\<forall>p \<in> set ?strs. p \<noteq> None)"
      using full by blast
  qed
qed

theorem GetObservedSTRs_range_witness:
  "\<exists>strs. GetObservedSTRs gapLog \<lparr>DirInitSTRHash = demoId, StartEpoch = 1, EndEpoch = 2\<rparr>
             = Some (NewSTRHistoryRange strs, gapLog)
        \<and> length strs = 2
        \<and> (\<forall>i < length strs.
              strs ! i = snapshots (the (gapLog demoId)) (1 + of_nat i))"
proof -
  let ?g = "insertRange (newDirectoryHistory ''addr-of-test-dir'' demoKey str0) [str2]"
  let ?req = "\<lparr>DirInitSTRHash = demoId, StartEpoch = 1, EndEpoch = 2\<rparr>"
  have known: "gapLog (DirInitSTRHash ?req) = Some ?g" by (simp add: gapLog_val)
  have order: "StartEpoch ?req \<le> EndEpoch ?req" by simp
  have bound: "EndEpoch ?req \<le> Epoch (VerifiedSTR (AudState ?g))"
    by (simp add: updateVerifiedSTR_def Update_def VerifiedSTR_def str2_def)
  have below_max: "EndEpoch ?req \<noteq> - 1" by simp
  from GetObservedSTRs_range [where l = gapLog and req = ?req and h = ?g,
      OF known order bound below_max]
  obtain strs where "GetObservedSTRs gapLog ?req = Some (NewSTRHistoryRange strs, gapLog)"
    and "length strs = unat (EndEpoch ?req) - unat (StartEpoch ?req) + 1"
    and "\<forall>i < length strs. strs ! i = snapshots ?g (StartEpoch ?req + of_nat i)"
    by blast
  then show ?thesis
    using known by (intro exI [of _ strs]) simp
qed

text \<open>
  Claim C6 as stated fails: in the log made by \<^verbatim>\<open>InitHistory\<close> from \<open>[str0, str2]\<close>
  the identity is known and the latest verified epoch is 2, yet the answer to the request
  for the epochs 0 to 2 has nil in the place of epoch 1, for which nothing is stored.
\<close>

theorem GetObservedSTRs_gap_counterexample:
  "gapLog demoId \<noteq> None
   \<and> Epoch (VerifiedSTR (AudState (the (gapLog demoId)))) = 2
   \<and> GetObservedSTRs gapLog \<lparr>DirInitSTRHash = demoId, StartEpoch = 0, EndEpoch = 2\<rparr>
       = Some (NewSTRHistoryRange [Some str0, None, Some str2], gapLog)"
  by (simp add: GetObservedSTRs_def get_def gapLog_val observedLoop.simps
        newDirectoryHistory_def updateVerifiedSTR_def Update_def VerifiedSTR_def
        auditor_New_def str0_def str2_def)

text \<open>
  Claim C10. \<^verbatim>\<open>GetObservedSTRs\<close> never changes the audit log: for every log and every
  request, whatever the answer, the log the call leaves is the log it was given, with the
  same identities and the same records.
\<close>

theorem GetObservedSTRs_pure:
  "GetObservedSTRs l req = Some (resp, l') \<Longrightarrow> l' = l"
  by (auto simp: GetObservedSTRs_def split: option.splits if_splits)

theorem GetObservedSTRs_pure_witness:
  "GetObservedSTRs gapLog \<lparr>DirInitSTRHash = demoId, StartEpoch = 0, EndEpoch = 2\<rparr>
     = Some (NewSTRHistoryRange [Some str0, None, Some str2], gapLog)
   \<and> gapLog = gapLog"
  using GetObservedSTRs_pure [OF gap_request] gap_request by simp

section \<open>The shape of a history record\<close>

lemma updateVerifiedSTR_latest [simp]:
  "VerifiedSTR (AudState (updateVerifiedSTR h s)) = s"
  by (simp add: updateVerifiedSTR_def Update_def VerifiedSTR_def)

lemma updateVerifiedSTR_snapshots [simp]:
  "snapshots (updateVerifiedSTR h s) = (snapshots h)(Epoch s \<mapsto> s)"
  by (simp add: updateVerifiedSTR_def)

lemma insertRange_latest_stored:
  "snapshots h (Epoch (VerifiedSTR (AudState h))) = Some (VerifiedSTR (AudState h)) \<Longrightarrow>
   snapshots (insertRange h snaps) (Epoch (VerifiedSTR (AudState (insertRange h snaps))))
     = Some (VerifiedSTR (AudState (insertRange h snaps)))"
  by (induction snaps arbitrary: h) simp_all

lemma newDirectoryHistory_latest_stored:
  "snapshots (newDirectoryHistory address signKey s)
      (Epoch (VerifiedSTR (AudState (newDirectoryHistory address signKey s))))
     = Some (VerifiedSTR (AudState (newDirectoryHistory address signKey s)))"
  by (simp add: newDirectoryHistory_def)

lemma successor_prefix:
  fixes v e :: epoch
  assumes "unat e = unat v + 1"
  shows "insert e {x. x \<le> v} = {x. x \<le> e}"
proof (rule set_eqI)
  fix x :: epoch
  have "x = e \<longleftrightarrow> unat x = unat e" by (simp add: word_unat_eq_iff)
  then show "x \<in> insert e {x. x \<le> v} \<longleftrightarrow> x \<in> {x. x \<le> e}"
    using assms by (auto simp: word_le_nat_alt)
qed

lemma insertRange_contiguous:
  "dom (snapshots h) = {e. e \<le> Epoch (VerifiedSTR (AudState h))} \<Longrightarrow>
   consecutiveFrom (unat (Epoch (VerifiedSTR (AudState h))) + 1) snaps \<Longrightarrow>
   dom (snapshots (insertRange h snaps))
     = {e. e \<le> Epoch (VerifiedSTR (AudState (insertRange h snaps)))}"
proof (induction snaps arbitrary: h)
  case Nil
  then show ?case by simp
next
  case (Cons s snaps)
  from Cons.prems have s: "unat (Epoch s) = unat (Epoch (VerifiedSTR (AudState h))) + 1"
    and rest: "consecutiveFrom (unat (Epoch s) + 1) snaps"
    by simp_all
  let ?h = "updateVerifiedSTR h s"
  have d: "dom (snapshots ?h) = {e. e \<le> Epoch (VerifiedSTR (AudState ?h))}"
    using Cons.prems(1) successor_prefix [OF s] by simp
  have c: "consecutiveFrom (unat (Epoch (VerifiedSTR (AudState ?h))) + 1) snaps"
    using rest by simp
  from Cons.IH [OF d c] show ?case by simp
qed

lemma newDirectoryHistory_contiguous:
  "Epoch s = 0 \<Longrightarrow>
   dom (snapshots (newDirectoryHistory address signKey s))
     = {e. e \<le> Epoch (VerifiedSTR (AudState (newDirectoryHistory address signKey s)))}"
  by (auto simp: newDirectoryHistory_def)

lemma admit_Inr:
  "admit X a c = Inr a' \<Longrightarrow>
     unat (Epoch c) = unat (Epoch (verifiedLatest a)) + 1 \<and> verifiedLatest a' = c"
  by (auto simp: admit_def split: if_splits)

lemma admitRange_consecutive:
  "admitRange X a strs = Inr a' \<Longrightarrow>
     consecutiveFrom (unat (Epoch (verifiedLatest a)) + 1) strs"
proof (induction strs arbitrary: a)
  case Nil
  then show ?case by simp
next
  case (Cons c strs)
  then obtain b where b: "admit X a c = Inr b" and r: "admitRange X b strs = Inr a'"
    by (auto split: sum.splits)
  from admit_Inr [OF b] Cons.IH [OF r] show ?case by simp
qed

lemma AuditDirectory_consecutive:
  "AuditDirectory X a strs = None \<Longrightarrow>
     consecutiveFrom (unat (Epoch (VerifiedSTR a)) + 1) strs"
  by (auto simp: AuditDirectory_def VerifiedSTR_def split: sum.splits
           dest: admitRange_consecutive)

lemma Audit_cases:
  "snd (Audit X h msg) = h \<or>
   (\<exists>strs. AuditDirectory X (AudState h) strs = None \<and> snd (Audit X h msg) = insertRange h strs)"
  by (auto simp: Audit_def split: option.splits DirectoryResponse.splits)

lemma Audit_latestStored: "latestStored h \<Longrightarrow> latestStored (snd (Audit X h msg))"
  using Audit_cases [of X h msg]
  by (auto simp: latestStored_def intro: insertRange_latest_stored)

lemma Audit_verifiedPrefix:
  assumes "verifiedPrefix h"
  shows "verifiedPrefix (snd (Audit X h msg))"
proof -
  from Audit_cases [of X h msg]
  consider "snd (Audit X h msg) = h"
    | strs where "AuditDirectory X (AudState h) strs = None"
        and "snd (Audit X h msg) = insertRange h strs"
    by blast
  then show ?thesis
  proof cases
    case 1
    with assms show ?thesis by simp
  next
    case 2
    from AuditDirectory_consecutive [OF 2(1)] assms
    have "verifiedPrefix (insertRange h strs)"
      unfolding verifiedPrefix_def by (intro insertRange_contiguous)
    with 2(2) show ?thesis by simp
  qed
qed

lemma AuditId_lookup:
  "snd (AuditId X l dirInitHash msg) k =
     (if k = dirInitHash then map_option (\<lambda>h. snd (Audit X h msg)) (l k) else l k)"
  by (auto simp: AuditId_def get_def split: option.splits prod.splits)

lemma InitHistory_lookup:
  "snd (InitHistory X l address signKey snaps) k = l k \<or>
   (l k = None \<and> snaps \<noteq> [] \<and> Epoch (hd snaps) = 0 \<and>
    snd (InitHistory X l address signKey snaps) k
      = Some (insertRange (newDirectoryHistory address signKey (hd snaps)) (tl snaps)))"
  by (cases snaps) (auto simp: InitHistory_def get_def set_log_def Let_def split: option.splits)

lemma consecutiveFrom_tl:
  "snaps \<noteq> [] \<Longrightarrow> consecutiveFrom n snaps \<Longrightarrow> consecutiveFrom (Suc n) (tl snaps)"
  by (cases snaps) simp_all

lemma apply_op_latestStored:
  assumes "\<forall>k h. l k = Some h \<longrightarrow> latestStored h"
  shows "\<forall>k h. apply_op X l op k = Some h \<longrightarrow> latestStored h"
proof (cases op)
  case (OpInitHistory address signKey snaps)
  show ?thesis
  proof (intro allI impI)
    fix k h assume "apply_op X l op k = Some h"
    with InitHistory_lookup [of X l address signKey snaps k] OpInitHistory assms
    show "latestStored h"
      by (auto simp: latestStored_def
               intro: insertRange_latest_stored newDirectoryHistory_latest_stored)
  qed
next
  case (OpAuditId dirInitHash msg)
  then show ?thesis
    using assms by (auto simp: AuditId_lookup Audit_latestStored split: if_splits)
qed

lemma apply_op_verifiedPrefix:
  assumes "\<forall>k h. l k = Some h \<longrightarrow> verifiedPrefix h" and "initConsecutive op"
  shows "\<forall>k h. apply_op X l op k = Some h \<longrightarrow> verifiedPrefix h"
proof (cases op)
  case (OpInitHistory address signKey snaps)
  show ?thesis
  proof (intro allI impI)
    fix k h assume "apply_op X l op k = Some h"
    with InitHistory_lookup [of X l address signKey snaps k] OpInitHistory
    consider "l k = Some h"
      | "snaps \<noteq> []" "Epoch (hd snaps) = 0"
        "h = insertRange (newDirectoryHistory address signKey (hd snaps)) (tl snaps)"
      by auto
    then show "verifiedPrefix h"
    proof cases
      case 1
      with assms show ?thesis by blast
    next
      case 2
      let ?h0 = "newDirectoryHistory address signKey (hd snaps)"
      have v0: "Epoch (VerifiedSTR (AudState ?h0)) = 0"
        using 2 by (simp add: newDirectoryHistory_def)
      have "consecutiveFrom (Suc 0) (tl snaps)"
        using assms(2) OpInitHistory 2 by (simp add: consecutiveFrom_tl)
      then have "consecutiveFrom (unat (Epoch (VerifiedSTR (AudState ?h0))) + 1) (tl snaps)"
        using v0 by simp
      with newDirectoryHistory_contiguous [OF 2(2), of address signKey] 2(3)
      show ?thesis
        unfolding verifiedPrefix_def by (simp add: insertRange_contiguous)
    qed
  qed
next
  case (OpAuditId dirInitHash msg)
  then show ?thesis
    using assms by (auto simp: AuditId_lookup Audit_verifiedPrefix split: if_splits)
qed

lemma foldl_latestStored:
  "\<forall>k h. l k = Some h \<longrightarrow> latestStored h \<Longrightarrow>
   \<forall>k h. foldl (apply_op X) l ops k = Some h \<longrightarrow> latestStored h"
proof (induction ops arbitrary: l)
  case Nil
  then show ?case by simp
next
  case (Cons op ops)
  from Cons.IH [OF apply_op_latestStored [OF Cons.prems]] show ?case by simp
qed

lemma foldl_verifiedPrefix:
  "\<forall>k h. l k = Some h \<longrightarrow> verifiedPrefix h \<Longrightarrow> \<forall>op \<in> set ops. initConsecutive op \<Longrightarrow>
   \<forall>k h. foldl (apply_op X) l ops k = Some h \<longrightarrow> verifiedPrefix h"
proof (induction ops arbitrary: l)
  case Nil
  then show ?case by simp
next
  case (Cons op ops)
  have "\<forall>k h. apply_op X l op k = Some h \<longrightarrow> verifiedPrefix h"
    using Cons.prems by (intro apply_op_verifiedPrefix) simp_all
  from Cons.IH [OF this] Cons.prems(2) show ?case by simp
qed

lemma demoOps_run:
  "run demoX demoOps demoId
     = Some (insertRange (newDirectoryHistory ''addr-of-test-dir'' demoKey str0) [str1, str2])"
  by (simp add: demoOps_def run_def New_def InitHistory_def AuditId_def Audit_def get_def
        set_log_def AuditDirectory_def admit_def NewSTRHistoryRange_def validateRange_def
        ComputeDirectoryIdentity_def demoId_def newDirectoryHistory_def updateVerifiedSTR_def
        Update_def auditor_New_def demoX_def demoKey_def str0_def str1_def str2_def)

text \<open>
  Claim C3 (as amended). For every history record in the log after any sequence of
  \<^verbatim>\<open>InitHistory\<close> and \<^verbatim>\<open>AuditId\<close> operations on the empty log, the entry stored at
  the epoch of the latest verified snapshot is that snapshot; and if every
  \<^verbatim>\<open>InitHistory\<close> of the sequence was given snapshots whose epochs are 0, 1, 2, ... in
  order, the stored epochs are exactly those from 0 to the epoch of the latest verified
  snapshot, with no gap.
\<close>

theorem history_shape:
  assumes "run X ops dirInitHash = Some h"
  shows "snapshots h (Epoch (VerifiedSTR (AudState h))) = Some (VerifiedSTR (AudState h))
         \<and> ((\<forall>op \<in> set ops. initConsecutive op) \<longrightarrow>
              dom (snapshots h) = {e. e \<le> Epoch (VerifiedSTR (AudState h))})"
proof -
  have "latestStored h"
    using foldl_latestStored [of New X ops] assms by (simp add: run_def New_def)
  moreover have "verifiedPrefix h" if "\<forall>op \<in> set ops. initConsecutive op"
    using foldl_verifiedPrefix [of New ops X] assms that by (simp add: run_def New_def)
  ultimately show ?thesis by (simp add: latestStored_def verifiedPrefix_def)
qed

theorem history_shape_witness:
  "\<exists>h. run demoX demoOps demoId = Some h
      \<and> (\<forall>op \<in> set demoOps. initConsecutive op)
      \<and> VerifiedSTR (AudState h) = str2
      \<and> snapshots h (Epoch str2) = Some str2
      \<and> dom (snapshots h) = {e. e \<le> Epoch str2}"
proof -
  let ?h = "insertRange (newDirectoryHistory ''addr-of-test-dir'' demoKey str0) [str1, str2]"
  have c: "\<forall>op \<in> set demoOps. initConsecutive op"
    by (simp add: demoOps_def str0_def str1_def)
  have v: "VerifiedSTR (AudState ?h) = str2"
    by (simp add: updateVerifiedSTR_def Update_def VerifiedSTR_def)
  from history_shape [OF demoOps_run] c v demoOps_run show ?thesis by simp
qed

text \<open>
  Claim C3 as stated fails: after the single operation \<^verbatim>\<open>InitHistory\<close> with
  \<open>[str0, str2]\<close> the latest verified epoch of the record is 2 and nothing is stored
  for epoch 1.
\<close>

theorem history_gap_counterexample:
  "run demoX [OpInitHistory ''addr-of-test-dir'' demoKey [str0, str2]] demoId \<noteq> None
   \<and> Epoch (VerifiedSTR (AudState (the
         (run demoX [OpInitHistory ''addr-of-test-dir'' demoKey [str0, str2]] demoId)))) = 2
   \<and> 1 \<notin> dom (snapshots (the
         (run demoX [OpInitHistory ''addr-of-test-dir'' demoKey [str0, str2]] demoId)))"
  by (simp add: run_def New_def InitHistory_def get_def set_log_def
        ComputeDirectoryIdentity_def demoId_def newDirectoryHistory_def updateVerifiedSTR_def
        Update_def VerifiedSTR_def auditor_New_def demoX_def str0_def str2_def)

section \<open>CheckEquivocation\<close>

text \<open>
  The auditor's side of \<^verbatim>\<open>TestForkGood\<close>: the auditor starts from \<open>str0\<close>, is sent
  \<open>str1\<close>, and answers the request for epoch 1 with \<open>str1\<close>.
\<close>

lemma fork_scenario_log:
  "snd (AuditId demoX demoLog demoId (NewSTRHistoryRange [str1]))
     = [demoId \<mapsto>
          updateVerifiedSTR (newDirectoryHistory ''addr-of-test-dir'' demoKey str0) str1]"
  by (simp add: AuditId_def Audit_def get_def AuditDirectory_def admit_def
        NewSTRHistoryRange_def validateRange_def demoLog_val newDirectoryHistory_def
        updateVerifiedSTR_def Update_def auditor_New_def demoX_def demoKey_def
        str0_def str1_def)

lemma fork_scenario_response:
  "map_option fst
     (GetObservedSTRs (snd (AuditId demoX demoLog demoId (NewSTRHistoryRange [str1])))
        \<lparr>DirInitSTRHash = demoId, StartEpoch = 1, EndEpoch = 1\<rparr>)
   = Some (NewSTRHistoryRange [Some str1])"
proof -
  let ?h = "updateVerifiedSTR (newDirectoryHistory ''addr-of-test-dir'' demoKey str0) str1"
  have e: "Epoch str1 = 1" by (simp add: str1_def)
  have loop: "observedLoop (snapshots ?h) 1 1 [] = Some [Some str1]"
    using observedLoop_returns [of 1 "snapshots ?h" 1 "[]"]
    by (simp add: epochsFrom_def e)
  have v: "Epoch (VerifiedSTR (AudState ?h)) = 1"
    by (simp add: e)
  show ?thesis
    unfolding fork_scenario_log
    by (simp add: GetObservedSTRs_def get_def loop v del: updateVerifiedSTR_snapshots
          updateVerifiedSTR_latest)
qed

text \<open>
  Claim C4. \<^verbatim>\<open>CheckEquivocation\<close> compares the snapshots of every epoch present both
  in the client's own admitted history and in the range the auditor returned: it signals
  EquivocationDetected exactly when the two snapshots of some such epoch differ, and it
  succeeds exactly when they are equal for every such epoch, which includes the case of no
  common epoch and the case where only some epochs of the range are known to the client.
\<close>

theorem CheckEquivocation_compares:
  "(CheckEquivocation own rng = Some (Code EquivocationDetected))
      = (\<exists>s \<in> set rng. \<exists>mine. own (Epoch s) = Some mine \<and> mine \<noteq> s)
   \<and> (CheckEquivocation own rng = None)
      = (\<forall>s \<in> set rng. \<forall>mine. own (Epoch s) = Some mine \<longrightarrow> mine = s)"
  by (induction rng) (auto split: option.splits)

theorem CheckEquivocation_compares_witness:
  "CheckEquivocation [0 \<mapsto> str0, 1 \<mapsto> str1_fork] [str1] = Some (Code EquivocationDetected)
   \<and> CheckEquivocation [0 \<mapsto> str0, 1 \<mapsto> str1] [str1, str2] = None
   \<and> CheckEquivocation [0 \<mapsto> str0] [str1] = None"
  using CheckEquivocation_compares [of "[0 \<mapsto> str0, 1 \<mapsto> str1_fork]" "[str1]"]
    CheckEquivocation_compares [of "[0 \<mapsto> str0, 1 \<mapsto> str1]" "[str1, str2]"]
    CheckEquivocation_compares [of "[0 \<mapsto> str0]" "[str1]"]
  by (simp add: str0_def str1_def str2_def str1_fork_def)

end
